theory Spec2Isabelle
  imports Main "HOL-Library.AList" "HOL-Library.Word"
begin

section \<open>Encrypted item store of LangBois: api_key_manager.py and config_manager.py\<close>

text \<open>
  The two storage modules keep named items as files in one directory (the storage root),
  next to a key file \<^verbatim>\<open>encryption.key\<close>. The embedding follows the Python source
  method by method. What the source leaves to other packages is a parameter of the model:
  the \<^verbatim>\<open>cryptography\<close>, \<^verbatim>\<open>json\<close> and \<^verbatim>\<open>yaml\<close> libraries,
  the text codec of \<^verbatim>\<open>str.encode\<close> and \<^verbatim>\<open>bytes.decode\<close>, the random key of
  \<^verbatim>\<open>Fernet.generate_key\<close> and the remote calls of \<^verbatim>\<open>validate_api_key\<close>.

  Scope of the file-system model: the storage root is a flat directory of files, given as
  an association list from file name to content, in the order \<^verbatim>\<open>os.listdir\<close> reports.
  Item names are file-name components (no path separator), and input/output errors of the
  operating system (permissions, full disk) are not modelled.
\<close>

subsection \<open>Values, errors and the external libraries\<close>

type_synonym bytes = string

datatype error =
    AttributeError
  | ValueError
  | TypeError
  | FileNotFoundError
  | InvalidToken
  | JSONDecodeError
  | YAMLError
  | UnicodeDecodeError
  | RemoteError

text \<open>What \<^verbatim>\<open>json.loads\<close> and \<^verbatim>\<open>yaml.safe_load\<close> return: a float is kept as
  the bit pattern of its double, a dict as its items in insertion order.\<close>

datatype pyval =
    PNone
  | PBool bool
  | PInt int
  | PFloat "64 word"
  | PStr string
  | PList "pyval list"
  | PDict "(string \<times> pyval) list"

record libs =
  fernet_accepts :: "bytes \<Rightarrow> bool"
  fernet_encrypt :: "bytes \<Rightarrow> bytes \<Rightarrow> bytes \<Rightarrow> bytes"
  fernet_decrypt :: "bytes \<Rightarrow> bytes \<Rightarrow> error + bytes"
  str_encode :: "string \<Rightarrow> bytes"
  bytes_decode :: "bytes \<Rightarrow> error + string"
  json_dumps :: "pyval \<Rightarrow> string"
  json_dump_indent2 :: "pyval \<Rightarrow> string"
  json_loads :: "string \<Rightarrow> error + pyval"
  json_loads_bytes :: "bytes \<Rightarrow> error + pyval"
  yaml_safe_dump :: "pyval \<Rightarrow> string"
  yaml_safe_load :: "string \<Rightarrow> error + pyval"

text \<open>
  \<^item> \<open>fernet_accepts k\<close>: the constructor \<^verbatim>\<open>Fernet(k)\<close> returns (it raises ValueError
    unless \<open>k\<close> is the url-safe base64 text of 32 bytes);
  \<^item> \<open>fernet_encrypt k iv p\<close>: \<^verbatim>\<open>Fernet(k).encrypt(p)\<close>, where \<open>iv\<close> stands for the
    time stamp and the random bytes the call draws;
  \<^item> \<open>fernet_decrypt k c\<close>: \<^verbatim>\<open>Fernet(k).decrypt(c)\<close>, with \<open>Inl\<close> for the exception;
  \<^item> \<open>json_dumps\<close> is \<^verbatim>\<open>json.dumps(v)\<close>, \<open>json_dump_indent2\<close> the text that
    \<^verbatim>\<open>json.dump(v, f, indent=2)\<close> writes, \<open>json_loads_bytes\<close> is \<^verbatim>\<open>json.loads\<close>
    on bytes.
\<close>

text \<open>A toy instance of the libraries, to run the model on concrete inputs: the
  cipher prefixes the key, the codecs know two texts.\<close>

definition toy_libs :: libs where
  "toy_libs = \<lparr>
     fernet_accepts = (\<lambda>k. length k = 4),
     fernet_encrypt = (\<lambda>k iv p. k @ p),
     fernet_decrypt = (\<lambda>k c. if take (length k) c = k then Inr (drop (length k) c) else Inl InvalidToken),
     str_encode = (\<lambda>s. s),
     bytes_decode = (\<lambda>b. Inr b),
     json_dumps = (\<lambda>v. if v = PDict [(''a'', PInt 1)] then ''{a: 1}'' else ''null''),
     json_dump_indent2 = (\<lambda>v. if v = PDict [(''a'', PInt 1)] then ''{  a: 1}'' else ''null''),
     json_loads = (\<lambda>s. if s = ''{a: 1}'' \<or> s = ''{  a: 1}'' then Inr (PDict [(''a'', PInt 1)])
                        else if s = ''null'' then Inr PNone else Inl JSONDecodeError),
     json_loads_bytes = (\<lambda>s. if s = ''{a: 1}'' \<or> s = ''{  a: 1}'' then Inr (PDict [(''a'', PInt 1)])
                        else if s = ''null'' then Inr PNone else Inl JSONDecodeError),
     yaml_safe_dump = (\<lambda>v. if v = PDict [(''a'', PInt 1)] then ''a: 1'' else ''null''),
     yaml_safe_load = (\<lambda>s. if s = ''a: 1'' then Inr (PDict [(''a'', PInt 1)])
                        else if s = ''null'' then Inr PNone else Inl YAMLError)
   \<rparr>"

subsection \<open>The storage root\<close>

type_synonym dir = "(string \<times> bytes) list"

definition os_listdir :: "dir \<Rightarrow> string list" where
  "os_listdir d = map fst d"

definition os_path_exists :: "dir \<Rightarrow> string \<Rightarrow> bool" where
  "os_path_exists d name = (name \<in> set (os_listdir d))"

definition file_read :: "dir \<Rightarrow> string \<Rightarrow> bytes option" where
  "file_read d name = map_of d name"

definition file_write :: "dir \<Rightarrow> string \<Rightarrow> bytes \<Rightarrow> dir" where
  "file_write d name content = AList.update name content d"

definition os_remove :: "dir \<Rightarrow> string \<Rightarrow> dir" where
  "os_remove d name = AList.delete name d"

definition key_file :: string where
  "key_file = ''encryption.key''"

subsection \<open>String helpers of the Python library\<close>

definition endswith :: "string \<Rightarrow> string \<Rightarrow> bool" where
  "endswith s suffix = (length suffix \<le> length s \<and> drop (length s - length suffix) s = suffix)"

text \<open>\<^verbatim>\<open>s.replace(old, new)\<close>: every occurrence, left to right, without overlap.\<close>

function str_replace :: "string \<Rightarrow> string \<Rightarrow> string \<Rightarrow> string" where
  "str_replace old new [] = (if old = [] then new else [])"
| "str_replace old new (c # cs) =
     (if old = [] then new @ c # str_replace old new cs
      else if take (length old) (c # cs) = old
        then new @ str_replace old new (drop (length old) (c # cs))
      else c # str_replace old new cs)"
  by pat_completeness auto
termination
  by (relation "measure (\<lambda>(old, new, s). length s)") auto

text \<open>\<^verbatim>\<open>s.rfind(c)\<close>: the last index of \<open>c\<close>, or -1.\<close>

definition rfind :: "char \<Rightarrow> string \<Rightarrow> int" where
  "rfind c s = (case filter (\<lambda>i. s ! i = c) (rev [0..<length s]) of [] \<Rightarrow> - 1 | i # _ \<Rightarrow> int i)"

text \<open>The loop of \<^verbatim>\<open>genericpath._splitext\<close> that skips leading dots: it returns the split
  as soon as a character before the last dot is not a dot.\<close>

fun skip_leading_dots :: "string \<Rightarrow> bool" where
  "skip_leading_dots [] = False"
| "skip_leading_dots (c # cs) = (if c \<noteq> CHR ''.'' then True else skip_leading_dots cs)"

definition splitext :: "string \<Rightarrow> string \<times> string" where
  "splitext p =
     (let sepIndex = rfind CHR ''/'' p; dotIndex = rfind CHR ''.'' p in
      if dotIndex > sepIndex \<and>
         skip_leading_dots (take (nat (dotIndex - (sepIndex + 1))) (drop (nat (sepIndex + 1)) p))
      then (take (nat dotIndex) p, drop (nat dotIndex) p)
      else (p, []))"

subsection \<open>The glob module on one directory\<close>

text \<open>
  \<^verbatim>\<open>fnmatch.translate\<close> turns a pattern into a regular expression: \<^verbatim>\<open>*\<close> is any
  text, \<^verbatim>\<open>?\<close> one character, \<^verbatim>\<open>[seq]\<close> a character of the set, \<^verbatim>\<open>[!seq]\<close> one
  outside it; a bracket that is never closed is the character itself. In a set the first
  character is literal, \<^verbatim>\<open>x-y\<close> is a range, and a hyphen right after a range or at the
  end is literal.
\<close>

datatype glob_tok = Star | AnyChar | Lit char | CharSet bool "(char \<times> char) list"

fun set_items :: "string \<Rightarrow> (char \<times> char) list" where
  "set_items (x # m # y # rest) =
     (if m = CHR ''-'' then (x, y) # set_items rest else (x, x) # set_items (m # y # rest))"
| "set_items (x # rest) = (x, x) # set_items rest"
| "set_items [] = []"

text \<open>The text up to the closing bracket and the text after it; \<open>None\<close> when no
  bracket closes the set. A bracket that comes first in the set is part of it.\<close>

fun until_bracket :: "string \<Rightarrow> (string \<times> string) option" where
  "until_bracket [] = None"
| "until_bracket (c # cs) =
     (if c = CHR '']'' then Some ([], cs)
      else (case until_bracket cs of None \<Rightarrow> None | Some (stuff, rest) \<Rightarrow> Some (c # stuff, rest)))"

definition set_body :: "string \<Rightarrow> (string \<times> string) option" where
  "set_body cs =
     (case cs of
        c # cs' \<Rightarrow>
          (if c = CHR '']''
           then (case until_bracket cs' of None \<Rightarrow> None | Some (stuff, rest) \<Rightarrow> Some (c # stuff, rest))
           else until_bracket cs)
      | [] \<Rightarrow> None)"

definition find_set :: "string \<Rightarrow> (bool \<times> string \<times> string) option" where
  "find_set cs =
     (case cs of
        c # cs' \<Rightarrow>
          (if c = CHR ''!''
           then (case set_body cs' of None \<Rightarrow> None | Some (stuff, rest) \<Rightarrow> Some (True, stuff, rest))
           else (case set_body cs of None \<Rightarrow> None | Some (stuff, rest) \<Rightarrow> Some (False, stuff, rest)))
      | [] \<Rightarrow> None)"

function translate :: "string \<Rightarrow> glob_tok list" where
  "translate [] = []"
| "translate (c # cs) =
     (if c = CHR ''*'' then (case translate cs of Star # ts \<Rightarrow> Star # ts | ts \<Rightarrow> Star # ts)
      else if c = CHR ''?'' then AnyChar # translate cs
      else if c = CHR ''[''
        then (case find_set cs of
                None \<Rightarrow> Lit c # translate cs
              | Some (neg, stuff, rest) \<Rightarrow> CharSet neg (set_items stuff) # translate rest)
      else Lit c # translate cs)"
  by pat_completeness auto
termination
proof (relation "measure length")
  have ub: "length rest < length cs" if "until_bracket cs = Some (stuff, rest)"
    for cs stuff rest
    using that by (induction cs arbitrary: stuff rest) (auto split: if_splits option.splits)
  have sb: "length rest < length cs" if "set_body cs = Some (stuff, rest)"
    for cs stuff rest
    using that ub by (fastforce simp: set_body_def split: list.splits if_splits option.splits)
  have fs: "length rest < length cs" if "find_set cs = Some (neg, stuff, rest)"
    for cs neg stuff rest
    using that sb by (fastforce simp: find_set_def split: list.splits if_splits option.splits)
  fix c cs x2 x y xa ya
  assume "find_set cs = Some x2" "(x, y) = x2" "(xa, ya) = y"
  then show "(ya, c # cs) \<in> measure length"
    using fs [of cs x xa ya] by auto
qed auto

definition in_set_items :: "char \<Rightarrow> (char \<times> char) list \<Rightarrow> bool" where
  "in_set_items c items =
     list_ex (\<lambda>(lo, hi). (of_char lo :: nat) \<le> of_char c \<and> (of_char c :: nat) \<le> of_char hi) items"

fun matches :: "glob_tok list \<Rightarrow> string \<Rightarrow> bool" where
  "matches [] s = (s = [])"
| "matches (Star # ts) [] = matches ts []"
| "matches (Star # ts) (c # s) = (matches ts (c # s) \<or> matches (Star # ts) s)"
| "matches (AnyChar # ts) [] = False"
| "matches (AnyChar # ts) (c # s) = matches ts s"
| "matches (Lit x # ts) [] = False"
| "matches (Lit x # ts) (c # s) = (x = c \<and> matches ts s)"
| "matches (CharSet neg items # ts) [] = False"
| "matches (CharSet neg items # ts) (c # s) = ((in_set_items c items \<noteq> neg) \<and> matches ts s)"

definition fnmatch :: "string \<Rightarrow> string \<Rightarrow> bool" where
  "fnmatch name pat = matches (translate pat) name"

definition ishidden :: "string \<Rightarrow> bool" where
  "ishidden path = (case path of [] \<Rightarrow> False | c # _ \<Rightarrow> c = CHR ''.'')"

text \<open>\<^verbatim>\<open>glob.glob\<close> for a pattern with a wildcard in its last component, as
  \<^verbatim>\<open>delete_config\<close> builds it: the names of the directory that match, hidden names
  only for a pattern that starts with a dot.\<close>

definition glob :: "dir \<Rightarrow> string \<Rightarrow> string list" where
  "glob d pattern =
     filter (\<lambda>name. fnmatch name pattern)
       (if ishidden pattern then os_listdir d else filter (\<lambda>x. \<not> ishidden x) (os_listdir d))"

subsection \<open>SecureAPIKeyManager (api_key_manager.py)\<close>

text \<open>
  \<^verbatim>\<open>__init__\<close> with \<^verbatim>\<open>_load_encryption_key\<close>: the key file is written and closed
  when it is missing, then read. \<open>fresh_key\<close> is the key \<^verbatim>\<open>Fernet.generate_key()\<close>
  draws. The result is the key the manager holds (or the exception) and the directory as
  the call leaves it.
\<close>

definition SecureAPIKeyManager_init :: "libs \<Rightarrow> bytes \<Rightarrow> dir \<Rightarrow> (error + bytes) \<times> dir" where
  "SecureAPIKeyManager_init L fresh_key d =
     (let d1 = (if \<not> os_path_exists d key_file then file_write d key_file fresh_key else d) in
      case file_read d1 key_file of
        None \<Rightarrow> (Inl FileNotFoundError, d1)
      | Some encryption_key \<Rightarrow>
          if fernet_accepts L encryption_key then (Inr encryption_key, d1) else (Inl ValueError, d1))"

text \<open>The methods take the key of \<^verbatim>\<open>self.cipher_suite\<close> and the directory.\<close>

definition store_api_key :: "libs \<Rightarrow> bytes \<Rightarrow> bytes \<Rightarrow> dir \<Rightarrow> string \<Rightarrow> string \<Rightarrow> error + dir" where
  "store_api_key L key iv d service api_key =
     (let encrypted_key = fernet_encrypt L key iv (str_encode L api_key) in
      Inr (file_write d (service @ ''_key.enc'') encrypted_key))"

text \<open>\<^verbatim>\<open>retrieve_api_key\<close> returns \<^verbatim>\<open>None\<close> for a missing file, and its
  \<^verbatim>\<open>except Exception\<close> turns every failure of decrypt and decode into \<^verbatim>\<open>None\<close> too.\<close>

definition retrieve_api_key :: "libs \<Rightarrow> bytes \<Rightarrow> dir \<Rightarrow> string \<Rightarrow> error + string option" where
  "retrieve_api_key L key d service =
     (case file_read d (service @ ''_key.enc'') of
        None \<Rightarrow> Inr None
      | Some encrypted_key \<Rightarrow>
          (case fernet_decrypt L key encrypted_key of
             Inl e \<Rightarrow> Inr None
           | Inr plain \<Rightarrow>
               (case bytes_decode L plain of
                  Inl e \<Rightarrow> Inr None
                | Inr decrypted_key \<Rightarrow> Inr (Some decrypted_key))))"

definition list_stored_services :: "dir \<Rightarrow> string list" where
  "list_stored_services d =
     map (\<lambda>filename. str_replace ''_key.enc'' [] filename)
       (filter (\<lambda>filename. endswith filename ''_key.enc'') (os_listdir d))"

definition delete_api_key :: "dir \<Rightarrow> string \<Rightarrow> dir" where
  "delete_api_key d service =
     (let key_file = service @ ''_key.enc'' in
      if os_path_exists d key_file then os_remove d key_file else d)"

text \<open>The three remote listings of \<^verbatim>\<open>validate_api_key\<close>, each with the exception it
  raises, if any (a failing import included).\<close>

record remote =
  openai_Model_list :: "string \<Rightarrow> error option"
  genai_list_models :: "string \<Rightarrow> error option"
  anthropic_models_list :: "string \<Rightarrow> error option"

definition validate_api_key :: "remote \<Rightarrow> string \<Rightarrow> string \<Rightarrow> bool" where
  "validate_api_key R service api_key =
     (case (if service = ''openai'' then openai_Model_list R api_key
            else if service = ''google'' then genai_list_models R api_key
            else if service = ''anthropic'' then anthropic_models_list R api_key
            else None) of
        None \<Rightarrow> True
      | Some e \<Rightarrow> False)"

subsection \<open>ConfigManager (config_manager.py)\<close>

text \<open>
  \<^verbatim>\<open>__init__\<close> with \<^verbatim>\<open>_load_or_generate_key\<close>. The statement that reads the key
  file is indented under the \<^verbatim>\<open>with open(self.key_file, 'wb')\<close> of the branch for a
  missing file. So with the file present nothing sets \<^verbatim>\<open>self.encryption_key\<close>, and
  \<^verbatim>\<open>Fernet(self.encryption_key)\<close> raises AttributeError. With the file missing, the read
  runs while the writer is still open: \<^verbatim>\<open>open(..., 'wb')\<close> has created the file empty
  and the 44 bytes of the key are in the writer's buffer until the block closes, so the
  read returns the empty bytes; the key reaches the file when the block is left.
\<close>

definition ConfigManager_init :: "libs \<Rightarrow> bytes \<Rightarrow> dir \<Rightarrow> (error + bytes) \<times> dir" where
  "ConfigManager_init L fresh_key d =
     (if \<not> os_path_exists d key_file then
        (let opened = file_write d key_file [];
             closed = file_write opened key_file fresh_key in
         case file_read opened key_file of
           None \<Rightarrow> (Inl FileNotFoundError, closed)
         | Some encryption_key \<Rightarrow>
             if fernet_accepts L encryption_key then (Inr encryption_key, closed)
             else (Inl ValueError, closed))
      else (Inl AttributeError, d))"

text \<open>\<^verbatim>\<open>save_config\<close>: the file is \<^verbatim>\<open>{config_name}.{format}\<close>. Encrypted, the
  content is the cipher text of the JSON text whatever the format; plain, the file is
  opened for writing and only the formats json and yaml write into it.\<close>

definition save_config ::
  "libs \<Rightarrow> bytes \<Rightarrow> bytes \<Rightarrow> dir \<Rightarrow> string \<Rightarrow> pyval \<Rightarrow> string \<Rightarrow> bool \<Rightarrow> error + dir" where
  "save_config L key iv d config_name config_data format encrypt =
     (let config_path = config_name @ ''.'' @ format in
      if encrypt then
        (let json_data = json_dumps L config_data;
             encrypted_data = fernet_encrypt L key iv (str_encode L json_data) in
         Inr (file_write d config_path encrypted_data))
      else
        Inr (file_write d config_path
          (if format = ''json'' then str_encode L (json_dump_indent2 L config_data)
           else if format = ''yaml'' then str_encode L (yaml_safe_dump L config_data)
           else [])))"

text \<open>\<^verbatim>\<open>load_config\<close>: a missing file raises FileNotFoundError; the errors of the
  cipher and of the codecs pass through; a plain file of another format is opened and
  the function falls off its end, returning \<^verbatim>\<open>None\<close>.\<close>

definition load_config :: "libs \<Rightarrow> bytes \<Rightarrow> dir \<Rightarrow> string \<Rightarrow> string \<Rightarrow> bool \<Rightarrow> error + pyval" where
  "load_config L key d config_name format decrypt =
     (let config_path = config_name @ ''.'' @ format in
      case file_read d config_path of
        None \<Rightarrow> Inl FileNotFoundError
      | Some content \<Rightarrow>
          if decrypt then
            (case fernet_decrypt L key content of
               Inl e \<Rightarrow> Inl e
             | Inr decrypted_data \<Rightarrow> json_loads_bytes L decrypted_data)
          else if format = ''json'' then
            (case bytes_decode L content of Inl e \<Rightarrow> Inl e | Inr text \<Rightarrow> json_loads L text)
          else if format = ''yaml'' then
            (case bytes_decode L content of Inl e \<Rightarrow> Inl e | Inr text \<Rightarrow> yaml_safe_load L text)
          else Inr PNone)"

text \<open>\<^verbatim>\<open>list_configs\<close> appends \<^verbatim>\<open>os.path.splitext(filename)\<close>, a pair.\<close>

definition list_configs :: "dir \<Rightarrow> (string \<times> string) list" where
  "list_configs d =
     map splitext (filter (\<lambda>filename. filename \<noteq> ''encryption.key'') (os_listdir d))"

definition delete_config :: "dir \<Rightarrow> string \<Rightarrow> dir" where
  "delete_config d config_name = fold (\<lambda>file dir. os_remove dir file) (glob d (config_name @ ''.*'')) d"

text \<open>\<^verbatim>\<open>deep_merge\<close> on the items of two dicts. The source changes \<^verbatim>\<open>dict1\<close> in
  place and returns it; here the updated items are returned. A nested dict of
  \<^verbatim>\<open>dict1\<close> is merged in place, which its key then shows.\<close>

function deep_merge :: "(string \<times> pyval) list \<Rightarrow> (string \<times> pyval) list \<Rightarrow> (string \<times> pyval) list" where
  "deep_merge dict1 [] = dict1"
| "deep_merge dict1 ((key, val) # items) =
     (case val of
        PDict d2 \<Rightarrow>
          (case map_of dict1 key of
             Some (PDict d1) \<Rightarrow> deep_merge (AList.update key (PDict (deep_merge d1 d2)) dict1) items
           | _ \<Rightarrow> deep_merge (AList.update key val dict1) items)
      | _ \<Rightarrow> deep_merge (AList.update key val dict1) items)"
  by pat_completeness auto
termination
  by (relation "measure (\<lambda>(d1, d2). size (PDict d2))") auto

text \<open>\<^verbatim>\<open>deep_merge(base.copy(), overlay)\<close> on the two loaded values: only dicts and
  lists have \<^verbatim>\<open>copy\<close>, only a dict has \<^verbatim>\<open>items\<close>, and a list takes no string key.\<close>

definition merge_loaded :: "pyval \<Rightarrow> pyval \<Rightarrow> error + pyval" where
  "merge_loaded base overlay =
     (case base of
        PDict b \<Rightarrow> (case overlay of PDict ov \<Rightarrow> Inr (PDict (deep_merge b ov)) | _ \<Rightarrow> Inl AttributeError)
      | PList xs \<Rightarrow>
          (case overlay of
             PDict ov \<Rightarrow> (if ov = [] then Inr (PList xs) else Inl TypeError)
           | _ \<Rightarrow> Inl AttributeError)
      | _ \<Rightarrow> Inl AttributeError)"

definition merge_configs :: "libs \<Rightarrow> bytes \<Rightarrow> dir \<Rightarrow> string \<Rightarrow> string \<Rightarrow> error + pyval" where
  "merge_configs L key d base_config overlay_config =
     (case load_config L key d base_config ''json'' True of
        Inl e \<Rightarrow> Inl e
      | Inr base \<Rightarrow>
          (case load_config L key d overlay_config ''json'' True of
             Inl e \<Rightarrow> Inl e
           | Inr overlay \<Rightarrow> merge_loaded base overlay))"

subsection \<open>The dicts of deep_merge as objects\<close>

text \<open>
  Python dicts are objects: \<^verbatim>\<open>base.copy()\<close> is a new dict whose values are the very
  objects of \<^verbatim>\<open>base\<close>, and \<^verbatim>\<open>dict1[key] = value\<close> changes the object that
  \<^verbatim>\<open>dict1\<close> names. For what the merge does to its arguments the dicts live in a heap:
  a list of dicts, a dict being addressed by its index. Lists stay values, since
  \<^verbatim>\<open>deep_merge\<close> neither reads nor writes inside a list.
\<close>

type_synonym addr = nat

datatype hval =
    HNone
  | HBool bool
  | HInt int
  | HFloat "64 word"
  | HStr string
  | HList "hval list"
  | HRef addr

type_synonym heap = "(string \<times> hval) list list"

text \<open>\<^verbatim>\<open>json.loads\<close> builds its result from new objects.\<close>

function alloc :: "pyval \<Rightarrow> heap \<Rightarrow> hval \<times> heap"
  and alloc_list :: "pyval list \<Rightarrow> heap \<Rightarrow> hval list \<times> heap"
  and alloc_items :: "(string \<times> pyval) list \<Rightarrow> heap \<Rightarrow> (string \<times> hval) list \<times> heap" where
  "alloc PNone h = (HNone, h)"
| "alloc (PBool b) h = (HBool b, h)"
| "alloc (PInt i) h = (HInt i, h)"
| "alloc (PFloat w) h = (HFloat w, h)"
| "alloc (PStr s) h = (HStr s, h)"
| "alloc (PList xs) h = (let (ys, h') = alloc_list xs h in (HList ys, h'))"
| "alloc (PDict items) h = (let (its, h') = alloc_items items h in (HRef (length h'), h' @ [its]))"
| "alloc_list [] h = ([], h)"
| "alloc_list (x # xs) h =
     (let (y, h') = alloc x h; (ys, h'') = alloc_list xs h' in (y # ys, h''))"
| "alloc_items [] h = ([], h)"
| "alloc_items ((k, x) # items) h =
     (let (y, h') = alloc x h; (its, h'') = alloc_items items h' in ((k, y) # its, h''))"
  by pat_completeness auto
termination
  by (relation "measure (\<lambda>a. case a of
        Inl (v, h) \<Rightarrow> 2 * size v
      | Inr (Inl (vs, h)) \<Rightarrow> 2 * size (PList vs) - 1
      | Inr (Inr (items, h)) \<Rightarrow> 2 * size (PDict items) - 1)") auto

text \<open>\<^verbatim>\<open>deep_merge(dict1, dict2)\<close> on two addresses. The first argument bounds the
  depth of the recursion (a heap may hold a dict that contains itself); \<open>None\<close> is a
  merge that did not return within the bound.\<close>

fun deep_merge_heap :: "nat \<Rightarrow> heap \<Rightarrow> addr \<Rightarrow> addr \<Rightarrow> heap option"
  and merge_items :: "nat \<Rightarrow> heap \<Rightarrow> addr \<Rightarrow> (string \<times> hval) list \<Rightarrow> heap option" where
  "deep_merge_heap 0 h dict1 dict2 = None"
| "deep_merge_heap (Suc n) h dict1 dict2 =
     (if dict1 < length h \<and> dict2 < length h then merge_items n h dict1 (h ! dict2) else None)"
| "merge_items n h dict1 [] = Some h"
| "merge_items n h dict1 ((key, val) # items) =
     (case val of
        HRef v2 \<Rightarrow>
          (case map_of (h ! dict1) key of
             Some (HRef v1) \<Rightarrow>
               (case deep_merge_heap n h v1 v2 of
                  None \<Rightarrow> None
                | Some h' \<Rightarrow> merge_items n h' dict1 items)
           | _ \<Rightarrow> merge_items n (h[dict1 := AList.update key val (h ! dict1)]) dict1 items)
      | _ \<Rightarrow> merge_items n (h[dict1 := AList.update key val (h ! dict1)]) dict1 items)"

text \<open>The value an address stands for, read from the heap down to a depth.\<close>

fun read_back :: "nat \<Rightarrow> heap \<Rightarrow> hval \<Rightarrow> pyval option"
  and read_list :: "nat \<Rightarrow> heap \<Rightarrow> hval list \<Rightarrow> pyval list option"
  and read_items :: "nat \<Rightarrow> heap \<Rightarrow> (string \<times> hval) list \<Rightarrow> (string \<times> pyval) list option" where
  "read_back n h HNone = Some PNone"
| "read_back n h (HBool b) = Some (PBool b)"
| "read_back n h (HInt i) = Some (PInt i)"
| "read_back n h (HFloat w) = Some (PFloat w)"
| "read_back n h (HStr s) = Some (PStr s)"
| "read_back n h (HList xs) = map_option PList (read_list n h xs)"
| "read_back 0 h (HRef a) = None"
| "read_back (Suc n) h (HRef a) =
     (if a < length h then map_option PDict (read_items n h (h ! a)) else None)"
| "read_list n h [] = Some []"
| "read_list n h (x # xs) =
     (case read_back n h x of None \<Rightarrow> None
      | Some y \<Rightarrow> (case read_list n h xs of None \<Rightarrow> None | Some ys \<Rightarrow> Some (y # ys)))"
| "read_items n h [] = Some []"
| "read_items n h ((k, x) # items) =
     (case read_back n h x of None \<Rightarrow> None
      | Some y \<Rightarrow> (case read_items n h items of None \<Rightarrow> None | Some its \<Rightarrow> Some ((k, y) # its)))"

text \<open>
  The body of \<^verbatim>\<open>merge_configs\<close> after its two loads, for two loaded dicts: both are
  built in an empty heap, \<^verbatim>\<open>base.copy()\<close> adds a dict with the items of \<^verbatim>\<open>base\<close>,
  and \<^verbatim>\<open>deep_merge\<close> runs on the copy and the overlay. The result is the heap after
  the merge with the addresses of \<^verbatim>\<open>base\<close>, of \<^verbatim>\<open>overlay\<close> and of the merged dict.
\<close>

definition merge_objects :: "nat \<Rightarrow> pyval \<Rightarrow> pyval \<Rightarrow> (heap \<times> hval \<times> hval \<times> hval) option" where
  "merge_objects n base overlay =
     (let (b, h1) = alloc base [];
          (ov, h2) = alloc overlay h1 in
      case (b, ov) of
        (HRef ab, HRef ao) \<Rightarrow>
          (let copy = length h2;
               h3 = h2 @ [h2 ! ab] in
           case deep_merge_heap n h3 copy ao of
             None \<Rightarrow> None
           | Some h4 \<Rightarrow> Some (h4, b, ov, HRef copy))
      | _ \<Rightarrow> None)"

subsection \<open>Concrete storage roots\<close>

text \<open>A root whose three items hold bytes that were never produced by the store.\<close>

definition corrupt_root :: dir where
  "corrupt_root = [(''encryption.key'', ''kkkk''), (''openai_key.enc'', ''garbage''),
     (''app.json'', ''garbage''), (''app.yaml'', ''garbage'')]"

section \<open>Properties\<close>

subsection \<open>The toy libraries and the directory\<close>

lemma toy_cipher [simp]:
  "fernet_accepts toy_libs k = (length k = 4)"
  "fernet_encrypt toy_libs k iv p = k @ p"
  "fernet_decrypt toy_libs k c =
     (if take (length k) c = k then Inr (drop (length k) c) else Inl InvalidToken)"
  "str_encode toy_libs s = s"
  "bytes_decode toy_libs b = Inr b"
  by (simp_all add: toy_libs_def)

lemma toy_codecs [simp]:
  "json_dumps toy_libs (PDict [(''a'', PInt 1)]) = ''{a: 1}''"
  "json_dump_indent2 toy_libs (PDict [(''a'', PInt 1)]) = ''{  a: 1}''"
  "yaml_safe_dump toy_libs (PDict [(''a'', PInt 1)]) = ''a: 1''"
  "json_loads toy_libs ''{  a: 1}'' = Inr (PDict [(''a'', PInt 1)])"
  "json_loads_bytes toy_libs ''{a: 1}'' = Inr (PDict [(''a'', PInt 1)])"
  "yaml_safe_load toy_libs ''a: 1'' = Inr (PDict [(''a'', PInt 1)])"
  by (simp_all add: toy_libs_def)

lemma toy_rejects [simp]:
  "json_loads toy_libs ''garbage'' = Inl JSONDecodeError"
  "json_loads_bytes toy_libs ''garbage'' = Inl JSONDecodeError"
  "yaml_safe_load toy_libs ''garbage'' = Inl YAMLError"
  by (simp_all add: toy_libs_def)

lemma file_read_None_iff: "file_read d name = None \<longleftrightarrow> \<not> os_path_exists d name"
  by (simp add: file_read_def os_path_exists_def os_listdir_def map_of_eq_None_iff)

lemma file_read_write [simp]: "file_read (file_write d name content) name = Some content"
  by (simp add: file_read_def file_write_def update_conv')

lemma file_read_write_other [simp]:
  "name' \<noteq> name \<Longrightarrow> file_read (file_write d name content) name' = file_read d name'"
  by (simp add: file_read_def file_write_def update_conv')

lemma file_write_twice [simp]:
  "file_write (file_write d name c) name c' = file_write d name c'"
  by (simp add: file_write_def)

subsection \<open>Initialisation of the key\<close>

text \<open>SecureAPIKeyManager: with a key file that Fernet accepts, the initialisation
  returns the bytes of the file and leaves the directory as it is; so a second
  initialisation returns the key of the first.\<close>

lemma SecureAPIKeyManager_init_existing_key:
  "file_read d key_file = Some k \<Longrightarrow> fernet_accepts L k \<Longrightarrow>
   SecureAPIKeyManager_init L fresh_key d = (Inr k, d)"
  using file_read_None_iff [of d key_file]
  by (simp add: SecureAPIKeyManager_init_def)

lemma SecureAPIKeyManager_init_result:
  "SecureAPIKeyManager_init L fresh_key d = (Inr k, d1) \<Longrightarrow>
   file_read d1 key_file = Some k \<and> fernet_accepts L k"
  by (auto simp: SecureAPIKeyManager_init_def Let_def split: option.splits if_splits)

lemma SecureAPIKeyManager_init_idempotent:
  "SecureAPIKeyManager_init L fresh_key d = (Inr k, d1) \<Longrightarrow>
   SecureAPIKeyManager_init L fresh_key' d1 = (Inr k, d1)"
  using SecureAPIKeyManager_init_result SecureAPIKeyManager_init_existing_key by blast

lemma SecureAPIKeyManager_init_first:
  "\<not> os_path_exists d key_file \<Longrightarrow> fernet_accepts L fresh_key \<Longrightarrow>
   SecureAPIKeyManager_init L fresh_key d = (Inr fresh_key, file_write d key_file fresh_key)"
  by (simp add: SecureAPIKeyManager_init_def)

text \<open>ConfigManager: the first initialisation writes the key file and fails on the
  empty key it has read (Fernet rejects the empty key); every later one fails too.\<close>

lemma ConfigManager_init_first:
  "\<not> os_path_exists d key_file \<Longrightarrow> \<not> fernet_accepts L [] \<Longrightarrow>
   ConfigManager_init L fresh_key d = (Inl ValueError, file_write d key_file fresh_key)"
  by (simp add: ConfigManager_init_def Let_def)

text \<open>
  Claim C1 (key vault initialisation is idempotent once the key file exists, for both
  managers). ConfigManager does not do it: for every storage root that holds a key file,
  \<^verbatim>\<open>ConfigManager.__init__\<close> raises AttributeError and loads no key, whatever the
  bytes of the file.
\<close>

theorem ConfigManager_init_existing_key:
  "os_path_exists d key_file \<Longrightarrow> ConfigManager_init L fresh_key d = (Inl AttributeError, d)"
  by (simp add: ConfigManager_init_def)

theorem ConfigManager_init_existing_key_witness:
  "os_path_exists [(''encryption.key'', ''kkkk'')] key_file \<and>
   ConfigManager_init toy_libs ''ffff'' [(''encryption.key'', ''kkkk'')] =
     (Inl AttributeError, [(''encryption.key'', ''kkkk'')])"
  using ConfigManager_init_existing_key [of "[(''encryption.key'', ''kkkk'')]" toy_libs "''ffff''"]
  by (simp add: os_path_exists_def os_listdir_def key_file_def)

subsection \<open>Retrieving\<close>

text \<open>
  Claim C4 (retrieve of a name with no file returns an absent result and raises nothing),
  as stated, at \<^verbatim>\<open>load_config\<close>: no file \<^verbatim>\<open>app.json\<close> is in the root, and the call
  raises FileNotFoundError.
\<close>

theorem load_config_missing_counterexample:
  "file_read [(''encryption.key'', ''kkkk'')] (''app'' @ ''.'' @ ''json'') = None \<and>
   load_config toy_libs ''kkkk'' [(''encryption.key'', ''kkkk'')] ''app'' ''json'' True =
     Inl FileNotFoundError"
  by (simp add: load_config_def file_read_def)

text \<open>
  Claim C4, amended: for a name with no matching file, \<^verbatim>\<open>retrieve_api_key\<close> returns
  \<^verbatim>\<open>None\<close> and raises nothing, and \<^verbatim>\<open>load_config\<close> raises FileNotFoundError, for
  every format and either value of \<^verbatim>\<open>decrypt\<close>.
\<close>

theorem retrieve_missing:
  "(file_read d (service @ ''_key.enc'') = None \<longrightarrow> retrieve_api_key L key d service = Inr None) \<and>
   (file_read d (config_name @ ''.'' @ format) = None \<longrightarrow>
      load_config L key d config_name format decrypt = Inl FileNotFoundError)"
  by (simp add: retrieve_api_key_def load_config_def)

theorem retrieve_missing_witness:
  "file_read [(''encryption.key'', ''kkkk'')] (''openai'' @ ''_key.enc'') = None \<and>
   retrieve_api_key toy_libs ''kkkk'' [(''encryption.key'', ''kkkk'')] ''openai'' = Inr None \<and>
   file_read [(''encryption.key'', ''kkkk'')] (''app'' @ ''.'' @ ''yaml'') = None \<and>
   load_config toy_libs ''kkkk'' [(''encryption.key'', ''kkkk'')] ''app'' ''yaml'' False =
     Inl FileNotFoundError"
  using retrieve_missing [of "[(''encryption.key'', ''kkkk'')]" "''openai''" toy_libs "''kkkk''"
      "''app''" "''yaml''" False]
  by (simp add: file_read_def)

text \<open>
  Claim C3 (a stored item that fails to decrypt or decode is surfaced as an error, never
  as the result of a missing item), as stated, at \<^verbatim>\<open>retrieve_api_key\<close>: the file
  of the service holds bytes the cipher rejects, and the call returns \<^verbatim>\<open>None\<close>, as
  it does in a root without the file.
\<close>

theorem retrieve_api_key_corrupt_counterexample:
  "file_read [(''encryption.key'', ''kkkk''), (''openai_key.enc'', ''garbage'')]
     (''openai'' @ ''_key.enc'') = Some ''garbage'' \<and>
   fernet_decrypt toy_libs ''kkkk'' ''garbage'' = Inl InvalidToken \<and>
   retrieve_api_key toy_libs ''kkkk''
     [(''encryption.key'', ''kkkk''), (''openai_key.enc'', ''garbage'')] ''openai'' = Inr None \<and>
   retrieve_api_key toy_libs ''kkkk'' [(''encryption.key'', ''kkkk'')] ''openai'' = Inr None"
  by (simp add: retrieve_api_key_def file_read_def)

text \<open>
  Claim C3, amended: for a stored item whose bytes are present but fail to decrypt or to
  decode, \<^verbatim>\<open>load_config\<close> raises the error of the cipher or of the codec itself (with
  \<^verbatim>\<open>decrypt\<close> set, for every format; without it, for json and yaml) and returns no
  value, while \<^verbatim>\<open>retrieve_api_key\<close> catches the error and returns \<^verbatim>\<open>None\<close>, its
  result for a missing item.
\<close>

theorem retrieve_corrupt:
  "(file_read d (service @ ''_key.enc'') = Some content \<and>
      (fernet_decrypt L key content = Inl e \<or>
       (fernet_decrypt L key content = Inr plain \<and> bytes_decode L plain = Inl e))
      \<longrightarrow> retrieve_api_key L key d service = Inr None) \<and>
   (file_read d (config_name @ ''.'' @ format) = Some content \<and>
      (fernet_decrypt L key content = Inl e \<or>
       (fernet_decrypt L key content = Inr plain \<and> json_loads_bytes L plain = Inl e))
      \<longrightarrow> load_config L key d config_name format True = Inl e) \<and>
   (file_read d (config_name @ ''.json'') = Some content \<and>
      (bytes_decode L content = Inl e \<or>
       (bytes_decode L content = Inr text \<and> json_loads L text = Inl e))
      \<longrightarrow> load_config L key d config_name ''json'' False = Inl e) \<and>
   (file_read d (config_name @ ''.yaml'') = Some content \<and>
      (bytes_decode L content = Inl e \<or>
       (bytes_decode L content = Inr text \<and> yaml_safe_load L text = Inl e))
      \<longrightarrow> load_config L key d config_name ''yaml'' False = Inl e)"
  by (auto simp: retrieve_api_key_def load_config_def)

theorem retrieve_corrupt_witness:
  "file_read corrupt_root (''openai'' @ ''_key.enc'') = Some ''garbage'' \<and>
   file_read corrupt_root (''app'' @ ''.'' @ ''json'') = Some ''garbage'' \<and>
   file_read corrupt_root (''app'' @ ''.yaml'') = Some ''garbage'' \<and>
   fernet_decrypt toy_libs ''kkkk'' ''garbage'' = Inl InvalidToken \<and>
   bytes_decode toy_libs ''garbage'' = Inr ''garbage'' \<and>
   json_loads toy_libs ''garbage'' = Inl JSONDecodeError \<and>
   yaml_safe_load toy_libs ''garbage'' = Inl YAMLError \<and>
   retrieve_api_key toy_libs ''kkkk'' corrupt_root ''openai'' = Inr None \<and>
   load_config toy_libs ''kkkk'' corrupt_root ''app'' ''json'' True = Inl InvalidToken \<and>
   load_config toy_libs ''kkkk'' corrupt_root ''app'' ''json'' False = Inl JSONDecodeError \<and>
   load_config toy_libs ''kkkk'' corrupt_root ''app'' ''yaml'' False = Inl YAMLError"
  using
    retrieve_corrupt [of corrupt_root "''openai''" "''garbage''" toy_libs "''kkkk''" InvalidToken _
      "''app''" "''json''" _]
    retrieve_corrupt [of corrupt_root "''openai''" "''garbage''" toy_libs "''kkkk''" JSONDecodeError _
      "''app''" "''json''" "''garbage''"]
    retrieve_corrupt [of corrupt_root "''openai''" "''garbage''" toy_libs "''kkkk''" YAMLError _
      "''app''" "''json''" "''garbage''"]
  by (simp add: corrupt_root_def file_read_def)

subsection \<open>Storing and retrieving\<close>

text \<open>With \<^verbatim>\<open>encrypt\<close> and \<^verbatim>\<open>decrypt\<close> set the format only names the file: the
  content is the cipher text of the JSON text, and it is read back as JSON.\<close>

lemma save_load_encrypted:
  assumes "fernet_decrypt L key (fernet_encrypt L key iv (str_encode L (json_dumps L v))) =
             Inr (str_encode L (json_dumps L v))"
    and "json_loads_bytes L (str_encode L (json_dumps L v)) = Inr v"
  shows "\<exists>d'. save_config L key iv d name v format True = Inr d' \<and>
           load_config L key d' name format True = Inr v"
  using assms by (simp add: save_config_def load_config_def Let_def)

text \<open>
  Claim C7: retrieve with the same name and flags right after store returns the stored
  payload, for an API key and for a configuration in each combination of encrypted or
  plain and json or yaml. The libraries are parameters, so each part rests on what the
  specification grants them at this payload: the cipher decrypts what it encrypted, and
  the codec reads back what it wrote. For yaml the result is stated as the value \<open>v'\<close>
  that the codec reads back from its own text: \<^verbatim>\<open>yaml.safe_dump\<close> sorts the keys of
  a dict, so \<open>v'\<close> is the payload up to the order of keys, which Python's equality of
  dicts does not see; with \<open>v' = v\<close> the result is the payload itself.
\<close>

theorem store_retrieve_roundtrip:
  "(fernet_decrypt L key (fernet_encrypt L key iv (str_encode L api_key)) = Inr (str_encode L api_key) \<and>
    bytes_decode L (str_encode L api_key) = Inr api_key
    \<longrightarrow> (\<exists>d'. store_api_key L key iv d service api_key = Inr d' \<and>
           retrieve_api_key L key d' service = Inr (Some api_key))) \<and>
   ((format = ''json'' \<or> format = ''yaml'') \<and>
    fernet_decrypt L key (fernet_encrypt L key iv (str_encode L (json_dumps L v))) =
      Inr (str_encode L (json_dumps L v)) \<and>
    json_loads_bytes L (str_encode L (json_dumps L v)) = Inr v
    \<longrightarrow> (\<exists>d'. save_config L key iv d name v format True = Inr d' \<and>
           load_config L key d' name format True = Inr v)) \<and>
   (bytes_decode L (str_encode L (json_dump_indent2 L v)) = Inr (json_dump_indent2 L v) \<and>
    json_loads L (json_dump_indent2 L v) = Inr v
    \<longrightarrow> (\<exists>d'. save_config L key iv d name v ''json'' False = Inr d' \<and>
           load_config L key d' name ''json'' False = Inr v)) \<and>
   (bytes_decode L (str_encode L (yaml_safe_dump L v)) = Inr (yaml_safe_dump L v) \<and>
    yaml_safe_load L (yaml_safe_dump L v) = Inr v'
    \<longrightarrow> (\<exists>d'. save_config L key iv d name v ''yaml'' False = Inr d' \<and>
           load_config L key d' name ''yaml'' False = Inr v'))"
proof -
  have api: "retrieve_api_key L key (file_write d (service @ ''_key.enc'')
      (fernet_encrypt L key iv (str_encode L api_key))) service = Inr (Some api_key)"
    if "fernet_decrypt L key (fernet_encrypt L key iv (str_encode L api_key)) =
          Inr (str_encode L api_key)"
      and "bytes_decode L (str_encode L api_key) = Inr api_key"
    using that by (simp add: retrieve_api_key_def)
  have enc: "\<exists>d'. save_config L key iv d name v format True = Inr d' \<and>
           load_config L key d' name format True = Inr v"
    if "fernet_decrypt L key (fernet_encrypt L key iv (str_encode L (json_dumps L v))) =
          Inr (str_encode L (json_dumps L v))"
      and "json_loads_bytes L (str_encode L (json_dumps L v)) = Inr v"
    using that by (rule save_load_encrypted)
  have js: "\<exists>d'. save_config L key iv d name v ''json'' False = Inr d' \<and>
           load_config L key d' name ''json'' False = Inr v"
    if "bytes_decode L (str_encode L (json_dump_indent2 L v)) = Inr (json_dump_indent2 L v)"
      and "json_loads L (json_dump_indent2 L v) = Inr v"
    using that by (simp add: save_config_def load_config_def)
  have ya: "\<exists>d'. save_config L key iv d name v ''yaml'' False = Inr d' \<and>
           load_config L key d' name ''yaml'' False = Inr v'"
    if "bytes_decode L (str_encode L (yaml_safe_dump L v)) = Inr (yaml_safe_dump L v)"
      and "yaml_safe_load L (yaml_safe_dump L v) = Inr v'"
    using that by (simp add: save_config_def load_config_def)
  show ?thesis
    using api enc js ya by (simp add: store_api_key_def)
qed

theorem store_retrieve_roundtrip_witness:
  "fernet_decrypt toy_libs ''kkkk'' (fernet_encrypt toy_libs ''kkkk'' ''iv'' (str_encode toy_libs ''sk-123'')) =
     Inr (str_encode toy_libs ''sk-123'') \<and>
   bytes_decode toy_libs (str_encode toy_libs ''sk-123'') = Inr ''sk-123'' \<and>
   json_loads_bytes toy_libs (str_encode toy_libs (json_dumps toy_libs (PDict [(''a'', PInt 1)]))) =
     Inr (PDict [(''a'', PInt 1)]) \<and>
   json_loads toy_libs (json_dump_indent2 toy_libs (PDict [(''a'', PInt 1)])) =
     Inr (PDict [(''a'', PInt 1)]) \<and>
   yaml_safe_load toy_libs (yaml_safe_dump toy_libs (PDict [(''a'', PInt 1)])) =
     Inr (PDict [(''a'', PInt 1)]) \<and>
   (\<exists>d'. store_api_key toy_libs ''kkkk'' ''iv'' [(''encryption.key'', ''kkkk'')] ''openai'' ''sk-123'' = Inr d' \<and>
      retrieve_api_key toy_libs ''kkkk'' d' ''openai'' = Inr (Some ''sk-123'')) \<and>
   (\<exists>d'. save_config toy_libs ''kkkk'' ''iv'' [(''encryption.key'', ''kkkk'')] ''app''
        (PDict [(''a'', PInt 1)]) ''yaml'' True = Inr d' \<and>
      load_config toy_libs ''kkkk'' d' ''app'' ''yaml'' True = Inr (PDict [(''a'', PInt 1)])) \<and>
   (\<exists>d'. save_config toy_libs ''kkkk'' ''iv'' [(''encryption.key'', ''kkkk'')] ''app''
        (PDict [(''a'', PInt 1)]) ''json'' False = Inr d' \<and>
      load_config toy_libs ''kkkk'' d' ''app'' ''json'' False = Inr (PDict [(''a'', PInt 1)])) \<and>
   (\<exists>d'. save_config toy_libs ''kkkk'' ''iv'' [(''encryption.key'', ''kkkk'')] ''app''
        (PDict [(''a'', PInt 1)]) ''yaml'' False = Inr d' \<and>
      load_config toy_libs ''kkkk'' d' ''app'' ''yaml'' False = Inr (PDict [(''a'', PInt 1)]))"
  using store_retrieve_roundtrip [of toy_libs "''kkkk''" "''iv''" "''sk-123''"
      "[(''encryption.key'', ''kkkk'')]" "''openai''" "''yaml''" "PDict [(''a'', PInt 1)]" "''app''"
      "PDict [(''a'', PInt 1)]"]
  by simp

subsection \<open>Formats outside json and yaml\<close>

text \<open>
  Claim C9 (save_config and load_config fail with UnsupportedFormatError for a format
  outside json and yaml), as stated, at the format toml: both calls return, with
  encryption (the payload comes back) and without it (an empty file, then
  \<^verbatim>\<open>None\<close>).
\<close>

theorem unsupported_format_counterexample:
  "''toml'' \<noteq> ''json'' \<and> ''toml'' \<noteq> ''yaml'' \<and>
   save_config toy_libs ''kkkk'' ''iv'' [] ''app'' (PDict [(''a'', PInt 1)]) ''toml'' True =
     Inr [(''app.toml'', ''kkkk{a: 1}'')] \<and>
   load_config toy_libs ''kkkk'' [(''app.toml'', ''kkkk{a: 1}'')] ''app'' ''toml'' True =
     Inr (PDict [(''a'', PInt 1)]) \<and>
   save_config toy_libs ''kkkk'' ''iv'' [] ''app'' (PDict [(''a'', PInt 1)]) ''toml'' False =
     Inr [(''app.toml'', [])] \<and>
   load_config toy_libs ''kkkk'' [(''app.toml'', [])] ''app'' ''toml'' False = Inr PNone"
  by (simp add: save_config_def load_config_def file_write_def file_read_def)

text \<open>
  Claim C9, amended: for every format identifier outside json and yaml, save_config with
  \<^verbatim>\<open>encrypt\<close> set and load_config with \<^verbatim>\<open>decrypt\<close> set do not fail. The identifier
  only names the file; the file holds the cipher text of the JSON text, and load_config
  returns the payload (where the cipher and the JSON codec round-trip on it).
\<close>

theorem unsupported_format_encrypted:
  assumes "format \<noteq> ''json''" and "format \<noteq> ''yaml''"
    and "fernet_decrypt L key (fernet_encrypt L key iv (str_encode L (json_dumps L v))) =
           Inr (str_encode L (json_dumps L v))"
    and "json_loads_bytes L (str_encode L (json_dumps L v)) = Inr v"
  shows "\<exists>d'. save_config L key iv d name v format True = Inr d' \<and>
           file_read d' (name @ ''.'' @ format) =
             Some (fernet_encrypt L key iv (str_encode L (json_dumps L v))) \<and>
           load_config L key d' name format True = Inr v"
  using assms by (simp add: save_config_def load_config_def Let_def)

theorem unsupported_format_encrypted_witness:
  "''toml'' \<noteq> ''json'' \<and> ''toml'' \<noteq> ''yaml'' \<and>
   fernet_decrypt toy_libs ''kkkk'' (fernet_encrypt toy_libs ''kkkk'' ''iv''
       (str_encode toy_libs (json_dumps toy_libs (PDict [(''a'', PInt 1)])))) =
     Inr (str_encode toy_libs (json_dumps toy_libs (PDict [(''a'', PInt 1)]))) \<and>
   json_loads_bytes toy_libs (str_encode toy_libs (json_dumps toy_libs (PDict [(''a'', PInt 1)]))) =
     Inr (PDict [(''a'', PInt 1)]) \<and>
   (\<exists>d'. save_config toy_libs ''kkkk'' ''iv'' [] ''app'' (PDict [(''a'', PInt 1)]) ''toml'' True = Inr d' \<and>
      file_read d' (''app'' @ ''.'' @ ''toml'') =
        Some (fernet_encrypt toy_libs ''kkkk'' ''iv''
          (str_encode toy_libs (json_dumps toy_libs (PDict [(''a'', PInt 1)])))) \<and>
      load_config toy_libs ''kkkk'' d' ''app'' ''toml'' True = Inr (PDict [(''a'', PInt 1)]))"
  using unsupported_format_encrypted [of "''toml''" toy_libs "''kkkk''" "''iv''"
      "PDict [(''a'', PInt 1)]" "[]" "''app''"]
  by simp

subsection \<open>The key file under delete and list\<close>

lemma fold_os_remove_names:
  "fst ` set (fold (\<lambda>file dir. os_remove dir file) fs d) = fst ` set d - set fs"
  by (induction fs arbitrary: d) (auto simp: os_remove_def AList.delete_eq image_iff)

lemma delete_config_encryption_example:
  "delete_config [(''encryption.key'', k), (''app.json'', c)] ''encryption'' = [(''app.json'', c)]"
  by (simp add: delete_config_def glob_def fnmatch_def ishidden_def os_listdir_def os_remove_def)

lemma save_config_overwrites_key_file:
  "save_config L key iv d ''encryption'' v ''key'' True = Inr d' \<Longrightarrow>
   file_read d' key_file = Some (fernet_encrypt L key iv (str_encode L (json_dumps L v)))"
  by (auto simp: save_config_def key_file_def)

text \<open>The methods of SecureAPIKeyManager leave the key file alone: their files end in
  \<^verbatim>\<open>_key.enc\<close>.\<close>

lemma api_key_file_is_not_key_file: "service @ ''_key.enc'' \<noteq> key_file"
proof
  assume "service @ ''_key.enc'' = key_file"
  then have "last (service @ ''_key.enc'') = last key_file" by simp
  then show False by (simp add: key_file_def)
qed

lemma store_api_key_keeps_key_file:
  "store_api_key L key iv d service api_key = Inr d' \<Longrightarrow> file_read d' key_file = file_read d key_file"
  using api_key_file_is_not_key_file [of service]
  by (auto simp: store_api_key_def Let_def)

lemma delete_api_key_keeps_key_file:
  "file_read (delete_api_key d service) key_file = file_read d key_file"
  using api_key_file_is_not_key_file [of service]
  by (auto simp: delete_api_key_def Let_def os_remove_def file_read_def delete_conv')

text \<open>
  Claim C2 (no store operation deletes or replaces the key file, delete_config with any
  configuration name included). \<^verbatim>\<open>delete_config\<close> does not keep it: the pattern
  \<^verbatim>\<open>encryption.*\<close> matches the key file, so for every storage root that holds the key
  file, \<^verbatim>\<open>delete_config("encryption")\<close> leaves a root without it.
\<close>

theorem delete_config_deletes_key_file:
  "os_path_exists d key_file \<Longrightarrow> \<not> os_path_exists (delete_config d ''encryption'') key_file"
proof -
  have "fnmatch key_file (''encryption'' @ ''.*'')"
    by (simp add: fnmatch_def key_file_def)
  moreover have "\<not> ishidden key_file"
    by (simp add: ishidden_def key_file_def)
  ultimately have "key_file \<in> set (os_listdir d) \<Longrightarrow>
      key_file \<in> set (glob d (''encryption'' @ ''.*''))"
    by (simp add: glob_def)
  then show "os_path_exists d key_file \<Longrightarrow> \<not> os_path_exists (delete_config d ''encryption'') key_file"
    using fold_os_remove_names [of "glob d (''encryption'' @ ''.*'')" d]
    by (auto simp: delete_config_def os_path_exists_def os_listdir_def)
qed

theorem delete_config_deletes_key_file_witness:
  "os_path_exists [(''encryption.key'', ''kkkk''), (''app.json'', ''kkkk{a: 1}'')] key_file \<and>
   \<not> os_path_exists
       (delete_config [(''encryption.key'', ''kkkk''), (''app.json'', ''kkkk{a: 1}'')] ''encryption'')
       key_file"
  using delete_config_deletes_key_file
    [of "[(''encryption.key'', ''kkkk''), (''app.json'', ''kkkk{a: 1}'')]"]
  by (simp add: os_path_exists_def os_listdir_def key_file_def)

text \<open>
  Claim C8 (list returns exactly the names of the stored items; after storing svc-a and
  svc-b and deleting svc-a it returns the set of the one name svc-b).
  \<^verbatim>\<open>list_stored_services\<close> returns the name; \<^verbatim>\<open>list_configs\<close> returns the pair
  that \<^verbatim>\<open>os.path.splitext\<close> makes of the file name, not the name.
\<close>

theorem list_after_store_delete:
  "(\<exists>d1 d2. save_config L key iv1 [(''encryption.key'', k)] ''svc-a'' va ''json'' True = Inr d1 \<and>
      save_config L key iv2 d1 ''svc-b'' vb ''json'' True = Inr d2 \<and>
      list_configs (delete_config d2 ''svc-a'') = [(''svc-b'', ''.json'')]) \<and>
   (\<exists>d1 d2. store_api_key L key iv1 [(''encryption.key'', k)] ''svc-a'' ka = Inr d1 \<and>
      store_api_key L key iv2 d1 ''svc-b'' kb = Inr d2 \<and>
      list_stored_services (delete_api_key d2 ''svc-a'') = [''svc-b''])"
  by (simp add: save_config_def store_api_key_def file_write_def delete_config_def glob_def
      fnmatch_def ishidden_def os_listdir_def os_remove_def list_configs_def splitext_def rfind_def
      list_stored_services_def delete_api_key_def os_path_exists_def endswith_def Let_def)

text \<open>A service name that contains \<^verbatim>\<open>_key.enc\<close> is listed without it, since
  \<^verbatim>\<open>replace\<close> removes every occurrence.\<close>

lemma list_stored_services_replace_all:
  "list_stored_services [(''a_key.encb_key.enc'', c)] = [''ab'']"
  by (simp add: list_stored_services_def os_listdir_def endswith_def)

subsection \<open>Merging\<close>

lemma deep_merge_Cons:
  "deep_merge base ((k, v) # items) =
     deep_merge (AList.update k
       (case v of
          PDict d2 \<Rightarrow> (case map_of base k of Some (PDict d1) \<Rightarrow> PDict (deep_merge d1 d2) | _ \<Rightarrow> v)
        | _ \<Rightarrow> v) base) items"
  by (simp split: pyval.splits option.splits)

lemma deep_merge_absent:
  "key \<notin> fst ` set overlay \<Longrightarrow> map_of (deep_merge base overlay) key = map_of base key"
proof (induction overlay arbitrary: base)
  case Nil
  then show ?case by simp
next
  case (Cons kv items)
  obtain k v where kv: "kv = (k, v)" by (cases kv)
  with Cons.prems have "key \<noteq> k" "key \<notin> fst ` set items" by auto
  then show ?case
    unfolding kv deep_merge_Cons by (simp add: Cons.IH update_conv')
qed

lemma deep_merge_map_of:
  assumes "distinct (map fst overlay)"
  shows "map_of (deep_merge base overlay) key =
     (case map_of overlay key of
        None \<Rightarrow> map_of base key
      | Some v \<Rightarrow>
          (case v of
             PDict d2 \<Rightarrow>
               (case map_of base key of
                  Some (PDict d1) \<Rightarrow> Some (PDict (deep_merge d1 d2))
                | _ \<Rightarrow> Some v)
           | _ \<Rightarrow> Some v))"
  using assms
proof (induction overlay arbitrary: base)
  case Nil
  then show ?case by simp
next
  case (Cons kv items)
  obtain k v where kv: "kv = (k, v)" by (cases kv)
  from Cons.prems kv have notin: "k \<notin> fst ` set items" and dist: "distinct (map fst items)"
    by auto
  show ?case
  proof (cases "key = k")
    case True
    with notin have "map_of (deep_merge base (kv # items)) key =
        Some (case v of
          PDict d2 \<Rightarrow> (case map_of base k of Some (PDict d1) \<Rightarrow> PDict (deep_merge d1 d2) | _ \<Rightarrow> v)
        | _ \<Rightarrow> v)"
      unfolding kv deep_merge_Cons by (simp add: deep_merge_absent update_conv')
    with True kv show ?thesis
      by (simp split: pyval.splits option.splits)
  next
    case False
    define base' where "base' = AList.update k
       (case v of
          PDict d2 \<Rightarrow> (case map_of base k of Some (PDict d1) \<Rightarrow> PDict (deep_merge d1 d2) | _ \<Rightarrow> v)
        | _ \<Rightarrow> v) base"
    have same: "map_of base' key = map_of base key"
      using False by (simp add: base'_def update_conv')
    have "map_of (deep_merge base (kv # items)) key = map_of (deep_merge base' items) key"
      unfolding kv deep_merge_Cons base'_def ..
    also have "\<dots> =
        (case map_of items key of
           None \<Rightarrow> map_of base' key
         | Some v \<Rightarrow>
             (case v of
                PDict d2 \<Rightarrow>
                  (case map_of base' key of
                     Some (PDict d1) \<Rightarrow> Some (PDict (deep_merge d1 d2))
                   | _ \<Rightarrow> Some v)
              | _ \<Rightarrow> Some v))"
      by (rule Cons.IH [OF dist])
    finally have E: "map_of (deep_merge base (kv # items)) key =
        (case map_of items key of
           None \<Rightarrow> map_of base' key
         | Some v \<Rightarrow>
             (case v of
                PDict d2 \<Rightarrow>
                  (case map_of base' key of
                     Some (PDict d1) \<Rightarrow> Some (PDict (deep_merge d1 d2))
                   | _ \<Rightarrow> Some v)
              | _ \<Rightarrow> Some v))" .
    have M: "map_of (kv # items) key = map_of items key"
      using False kv by simp
    show ?thesis
      by (simp only: E same M)
  qed
qed

lemma deep_merge_keys:
  "fst ` set (deep_merge base overlay) = fst ` set base \<union> fst ` set overlay"
proof (induction overlay arbitrary: base)
  case Nil
  then show ?case by simp
next
  case (Cons kv items)
  obtain k v where kv: "kv = (k, v)" by (cases kv)
  show ?case unfolding kv deep_merge_Cons by (simp add: Cons.IH dom_update)
qed

lemma deep_merge_example:
  "deep_merge [(''a'', PInt 1), (''b'', PDict [(''x'', PInt 1), (''y'', PInt 2)])]
     [(''b'', PDict [(''y'', PInt 9), (''z'', PInt 3)]), (''c'', PInt 4)] =
   [(''a'', PInt 1), (''b'', PDict [(''x'', PInt 1), (''y'', PInt 9), (''z'', PInt 3)]),
    (''c'', PInt 4)]"
  by simp

lemma deep_merge_replaces_lists:
  "deep_merge [(''tags'', PList [PInt 1, PInt 2, PInt 3])] [(''tags'', PList [PInt 9])] =
   [(''tags'', PList [PInt 9])]"
  by simp

text \<open>
  Claim C6: the merge result follows the deep-merge algorithm. For an overlay dict (its
  keys are distinct) the result has at each key of the overlay the recursive merge when
  the value is a dict on both sides and the overlay's value otherwise, and at every other
  key what the base has; the keys of the result are those of the base and of the overlay.
  The example of the specification evaluates to the result it names.
\<close>

theorem deep_merge_overlay_wins:
  "(distinct (map fst overlay) \<longrightarrow>
      map_of (deep_merge base overlay) key =
        (case map_of overlay key of
           None \<Rightarrow> map_of base key
         | Some v \<Rightarrow>
             (case v of
                PDict d2 \<Rightarrow>
                  (case map_of base key of
                     Some (PDict d1) \<Rightarrow> Some (PDict (deep_merge d1 d2))
                   | _ \<Rightarrow> Some v)
              | _ \<Rightarrow> Some v))) \<and>
   fst ` set (deep_merge base overlay) = fst ` set base \<union> fst ` set overlay \<and>
   merge_loaded (PDict base) (PDict overlay) = Inr (PDict (deep_merge base overlay)) \<and>
   deep_merge [(''a'', PInt 1), (''b'', PDict [(''x'', PInt 1), (''y'', PInt 2)])]
     [(''b'', PDict [(''y'', PInt 9), (''z'', PInt 3)]), (''c'', PInt 4)] =
   [(''a'', PInt 1), (''b'', PDict [(''x'', PInt 1), (''y'', PInt 9), (''z'', PInt 3)]),
    (''c'', PInt 4)]"
proof (intro conjI impI)
  assume "distinct (map fst overlay)"
  then show "map_of (deep_merge base overlay) key =
        (case map_of overlay key of
           None \<Rightarrow> map_of base key
         | Some v \<Rightarrow>
             (case v of
                PDict d2 \<Rightarrow>
                  (case map_of base key of
                     Some (PDict d1) \<Rightarrow> Some (PDict (deep_merge d1 d2))
                   | _ \<Rightarrow> Some v)
              | _ \<Rightarrow> Some v))"
    by (rule deep_merge_map_of)
qed (simp_all only: deep_merge_keys deep_merge_example merge_loaded_def pyval.case)

theorem deep_merge_overlay_wins_witness:
  "distinct (map fst [(''b'', PDict [(''y'', PInt 9), (''z'', PInt 3)]), (''c'', PInt 4)]) \<and>
   map_of (deep_merge [(''a'', PInt 1), (''b'', PDict [(''x'', PInt 1), (''y'', PInt 2)])]
     [(''b'', PDict [(''y'', PInt 9), (''z'', PInt 3)]), (''c'', PInt 4)]) ''b'' =
     Some (PDict (deep_merge [(''x'', PInt 1), (''y'', PInt 2)] [(''y'', PInt 9), (''z'', PInt 3)])) \<and>
   map_of (deep_merge [(''a'', PInt 1), (''b'', PDict [(''x'', PInt 1), (''y'', PInt 2)])]
     [(''b'', PDict [(''y'', PInt 9), (''z'', PInt 3)]), (''c'', PInt 4)]) ''c'' = Some (PInt 4) \<and>
   map_of (deep_merge [(''a'', PInt 1), (''b'', PDict [(''x'', PInt 1), (''y'', PInt 2)])]
     [(''b'', PDict [(''y'', PInt 9), (''z'', PInt 3)]), (''c'', PInt 4)]) ''a'' = Some (PInt 1)"
  using
    deep_merge_overlay_wins [of "[(''b'', PDict [(''y'', PInt 9), (''z'', PInt 3)]), (''c'', PInt 4)]"
      "[(''a'', PInt 1), (''b'', PDict [(''x'', PInt 1), (''y'', PInt 2)])]" "''b''"]
  by simp

text \<open>
  Claim C5 (merge_configs never changes its loaded base and overlay, nested dicts
  included). \<^verbatim>\<open>base.copy()\<close> copies one level only: for the base
  \<^verbatim>\<open>{"b": {"x": 1}}\<close> and the overlay \<^verbatim>\<open>{"b": {"y": 2}}\<close> the merge writes the key
  \<^verbatim>\<open>y\<close> into the nested dict of the base, so the base reads
  \<^verbatim>\<open>{"b": {"x": 1, "y": 2}}\<close> afterwards. The overlay is unchanged.
\<close>

theorem merge_configs_mutates_base:
  "alloc (PDict [(''b'', PDict [(''x'', PInt 1)])]) [] =
     (HRef 1, [[(''x'', HInt 1)], [(''b'', HRef 0)]]) \<and>
   read_back 2 [[(''x'', HInt 1)], [(''b'', HRef 0)]] (HRef 1) =
     Some (PDict [(''b'', PDict [(''x'', PInt 1)])]) \<and>
   (\<exists>h. merge_objects 2 (PDict [(''b'', PDict [(''x'', PInt 1)])])
           (PDict [(''b'', PDict [(''y'', PInt 2)])]) = Some (h, HRef 1, HRef 3, HRef 4) \<and>
      read_back 2 h (HRef 1) = Some (PDict [(''b'', PDict [(''x'', PInt 1), (''y'', PInt 2)])]) \<and>
      read_back 2 h (HRef 3) = Some (PDict [(''b'', PDict [(''y'', PInt 2)])]) \<and>
      read_back 2 h (HRef 4) = Some (PDict [(''b'', PDict [(''x'', PInt 1), (''y'', PInt 2)])]))"
  by (simp add: merge_objects_def numeral_2_eq_2 nth_append)

text \<open>On the example of the specification the merged object reads as the items that
  \<open>deep_merge\<close> computes, and the overlay reads as before.\<close>

lemma merge_objects_example:
  "\<exists>h b ov m.
     merge_objects 2 (PDict [(''a'', PInt 1), (''b'', PDict [(''x'', PInt 1), (''y'', PInt 2)])])
       (PDict [(''b'', PDict [(''y'', PInt 9), (''z'', PInt 3)]), (''c'', PInt 4)]) =
       Some (h, b, ov, m) \<and>
     read_back 2 h m =
       Some (PDict (deep_merge [(''a'', PInt 1), (''b'', PDict [(''x'', PInt 1), (''y'', PInt 2)])]
         [(''b'', PDict [(''y'', PInt 9), (''z'', PInt 3)]), (''c'', PInt 4)])) \<and>
     read_back 2 h ov = Some (PDict [(''b'', PDict [(''y'', PInt 9), (''z'', PInt 3)]), (''c'', PInt 4)])"
  by (simp add: merge_objects_def numeral_2_eq_2 nth_append)

subsection \<open>Validation\<close>

text \<open>
  Claim C10: for every service other than openai, google and anthropic,
  \<^verbatim>\<open>validate_api_key\<close> returns \<^verbatim>\<open>True\<close> for every candidate key, whatever the
  remote services would answer: none of them is called.
\<close>

theorem validate_api_key_unknown_service:
  "service \<noteq> ''openai'' \<Longrightarrow> service \<noteq> ''google'' \<Longrightarrow> service \<noteq> ''anthropic'' \<Longrightarrow>
   validate_api_key R service api_key = True"
  by (simp add: validate_api_key_def)

theorem validate_api_key_unknown_service_witness:
  "validate_api_key \<lparr>openai_Model_list = (\<lambda>k. Some RemoteError),
      genai_list_models = (\<lambda>k. Some RemoteError),
      anthropic_models_list = (\<lambda>k. Some RemoteError)\<rparr> ''mistral'' ''not-a-key'' = True"
  using validate_api_key_unknown_service [of "''mistral''" _ "''not-a-key''"] by simp

end
